theory Spec2Isabelle
  imports Complex_Main
begin

section \<open>Python values shared by the modules\<close>

text \<open>
  A Python \<open>str\<close> is a sequence of Unicode code points, so it is modelled as a list of
  natural numbers (the code points), not as a list of 8-bit characters: the status values of
  the ledger and the source-language predicate \<open>has_korean\<close> are about code points beyond
  ASCII.
\<close>

type_synonym pystr = "nat list"

text \<open>ASCII literals of the source, as code points.\<close>

definition ascii :: "string \<Rightarrow> pystr" where
  "ascii s = map of_char s"

text \<open>Exceptions are values: the class that the \<open>except\<close> clauses dispatch on, and the
  message that \<open>str(e)\<close> yields.\<close>

datatype exn_class = PermissionError | JSONDecodeError | FileNotFoundError | ValueError
  | TypeError | OtherException

datatype exn = Exn exn_class pystr

fun exn_str :: "exn \<Rightarrow> pystr" where
  "exn_str (Exn c msg) = msg"

fun exn_class_of :: "exn \<Rightarrow> exn_class" where
  "exn_class_of (Exn c msg) = c"

text \<open>\<open>s.startswith(p)\<close> and \<open>sub in s\<close> on strings.\<close>

fun startswith :: "pystr \<Rightarrow> pystr \<Rightarrow> bool" where
  "startswith s [] = True"
| "startswith [] (p # ps) = False"
| "startswith (c # cs) (p # ps) = (c = p \<and> startswith cs ps)"

fun contains :: "pystr \<Rightarrow> pystr \<Rightarrow> bool" where
  "contains [] sub = (sub = [])"
| "contains (c # cs) sub = (startswith (c # cs) sub \<or> contains cs sub)"

section \<open>utils.py\<close>

text \<open>\<open>has_korean(text)\<close>: \<open>re.search('[\<dots>]', text) is not None\<close> with the character class
  from U+AC00 to U+D7A3 (the Hangul syllables).\<close>

definition is_hangul :: "nat \<Rightarrow> bool" where
  "is_hangul c = (44032 \<le> c \<and> c \<le> 55203)"

definition has_korean :: "pystr \<Rightarrow> bool" where
  "has_korean text = list_ex is_hangul text"

section \<open>sheets\_manager.py: the ledger\<close>

subsection \<open>Constants\<close>

definition SHEETS_API_RETRY_COUNT :: nat where "SHEETS_API_RETRY_COUNT = 3"
definition SHEETS_API_RETRY_DELAY :: rat where "SHEETS_API_RETRY_DELAY = 5"
definition SHEETS_API_MIN_DELAY :: rat where "SHEETS_API_MIN_DELAY = 1 / 2"

text \<open>class \<open>SheetColumns\<close>: 1-based column numbers.\<close>

definition COL_ROW_NUM :: nat where "COL_ROW_NUM = 1"
definition COL_UPPER_PATH :: nat where "COL_UPPER_PATH = 2"
definition COL_SUB_PATH :: nat where "COL_SUB_PATH = 3"
definition COL_FILE_NAME :: nat where "COL_FILE_NAME = 4"
definition COL_FILE_SIZE :: nat where "COL_FILE_SIZE = 5"
definition COL_FILE_TYPE :: nat where "COL_FILE_TYPE = 6"
definition COL_STATUS :: nat where "COL_STATUS = 7"
definition COL_START_TIME :: nat where "COL_START_TIME = 8"
definition COL_END_TIME :: nat where "COL_END_TIME = 9"
definition COL_ERROR :: nat where "COL_ERROR = 10"
definition COL_NOTE :: nat where "COL_NOTE = 11"
definition COL_INPUT_TOKEN :: nat where "COL_INPUT_TOKEN = 12"
definition COL_OUTPUT_TOKEN :: nat where "COL_OUTPUT_TOKEN = 13"
definition COL_TOTAL_COST :: nat where "COL_TOTAL_COST = 14"

text \<open>class \<open>Status\<close>: the status strings, as code points.\<close>

definition WAITING :: pystr where "WAITING = [45824, 44592]"
definition IN_PROGRESS :: pystr where "IN_PROGRESS = [51652, 54665, 51473]"
definition COMPLETED :: pystr where "COMPLETED = [50756, 47308]"
definition ERROR :: pystr where "ERROR = [50724, 47448]"
definition VERIFIED_1 :: pystr where "VERIFIED_1 = [49, 52264, 44160, 51613, 50756, 47308]"
definition REVIEW_1_COMPLETED :: pystr where
  "REVIEW_1_COMPLETED = [49, 52264, 32, 44160, 49688, 50756, 47308]"

lemmas status_defs = WAITING_def IN_PROGRESS_def COMPLETED_def ERROR_def VERIFIED_1_def
  REVIEW_1_COMPLETED_def

subsection \<open>get\_next\_waiting\_task\<close>

text \<open>The dictionary that \<open>get_next_waiting_task\<close> returns.\<close>

record task =
  row_index :: nat
  row_num :: pystr
  upper_path :: pystr
  sub_path :: pystr
  file_name :: pystr
  file_type :: pystr
  status :: pystr

definition processable_statuses :: "pystr list" where
  "processable_statuses = [WAITING, IN_PROGRESS, ERROR]"

text \<open>\<open>row[col - 1] if len(row) >= col else ''\<close>.\<close>

definition col_or_empty :: "pystr list \<Rightarrow> nat \<Rightarrow> pystr" where
  "col_or_empty row col = (if length row \<ge> col then row ! (col - 1) else [])"

text \<open>The two tests of the loop body: the row reaches the status column, and its status is
  one of the processable ones.\<close>

definition is_processable :: "pystr list \<Rightarrow> bool" where
  "is_processable row =
     (length row > COL_STATUS - 1 \<and> row ! (COL_STATUS - 1) \<in> set processable_statuses)"

definition task_of_row :: "nat \<Rightarrow> pystr list \<Rightarrow> task" where
  "task_of_row idx row =
     \<lparr> row_index = idx,
       row_num = col_or_empty row COL_ROW_NUM,
       upper_path = col_or_empty row COL_UPPER_PATH,
       sub_path = col_or_empty row COL_SUB_PATH,
       file_name = col_or_empty row COL_FILE_NAME,
       file_type = col_or_empty row COL_FILE_TYPE,
       status = row ! (COL_STATUS - 1) \<rparr>"

text \<open>\<open>for idx, row in enumerate(all_values[1:], start=2)\<close>, returning at the first
  processable row.\<close>

fun scan_rows :: "nat \<Rightarrow> pystr list list \<Rightarrow> task option" where
  "scan_rows idx [] = None"
| "scan_rows idx (row # rest) =
     (if is_processable row then Some (task_of_row idx row) else scan_rows (Suc idx) rest)"

text \<open>The argument is what \<open>self.sheet.get_all_values()\<close> did: it raised, or it returned the
  rows of the sheet (the header first). Any exception is caught and \<open>None\<close> is returned.\<close>

definition get_next_waiting_task :: "exn + pystr list list \<Rightarrow> task option" where
  "get_next_waiting_task got =
     (case got of
        Inl e \<Rightarrow> None
      | Inr all_values \<Rightarrow> scan_rows 2 (drop 1 all_values))"

subsection \<open>The sheet as a rate-limited store\<close>

text \<open>
  The worksheet is a remote store: a request is served, or it raises. The state of the model
  is the content of the cells, what each request to come will do (\<open>faults\<close>, by the number of
  the request: \<open>None\<close> when it is served), the number of requests made so far, and the
  durations passed to \<open>time.sleep\<close>, in order.
\<close>

datatype sheet_cell = SStr pystr | SInt int

record ledger =
  cells :: "nat \<times> nat \<Rightarrow> sheet_cell"
  faults :: "nat \<Rightarrow> exn option"
  requests :: nat
  slept :: "rat list"

definition sleep :: "rat \<Rightarrow> ledger \<Rightarrow> ledger" where
  "sleep d L = L\<lparr>slept := slept L @ [d]\<rparr>"

text \<open>\<open>self.sheet.update_cell(row, col, v)\<close>.\<close>

definition update_cell :: "nat \<Rightarrow> nat \<Rightarrow> sheet_cell \<Rightarrow> ledger \<Rightarrow> (exn + unit) \<times> ledger" where
  "update_cell r c v L =
     (case faults L (requests L) of
        None \<Rightarrow> (Inr (), L\<lparr>cells := (cells L)((r, c) := v), requests := Suc (requests L)\<rparr>)
      | Some e \<Rightarrow> (Inl e, L\<lparr>requests := Suc (requests L)\<rparr>))"

subsection \<open>\_api\_call\_with\_retry\<close>

definition is_rate_limit :: "exn \<Rightarrow> bool" where
  "is_rate_limit e =
     (contains (exn_str e) (ascii ''429'') \<or> contains (exn_str e) (ascii ''Quota exceeded''))"

text \<open>
  The loop \<open>for attempt in range(SHEETS_API_RETRY_COUNT)\<close> over the attempt numbers still to
  run, with \<open>last_exception\<close>. After the loop, \<open>raise last_exception\<close>; with no attempt at all
  that is \<open>raise None\<close>, a \<open>TypeError\<close>.
\<close>

fun api_retry_attempts ::
  "(ledger \<Rightarrow> (exn + 'a) \<times> ledger) \<Rightarrow> nat list \<Rightarrow> exn option \<Rightarrow> ledger \<Rightarrow> (exn + 'a) \<times> ledger"
where
  "api_retry_attempts func [] last_exception L =
     (case last_exception of
        None \<Rightarrow> (Inl (Exn TypeError []), L)
      | Some e \<Rightarrow> (Inl e, L))"
| "api_retry_attempts func (attempt # rest) last_exception L =
     (case func (sleep SHEETS_API_MIN_DELAY L) of
        (Inr v, L1) \<Rightarrow> (Inr v, L1)
      | (Inl e, L1) \<Rightarrow>
          if is_rate_limit e
          then api_retry_attempts func rest (Some e)
                 (sleep (SHEETS_API_RETRY_DELAY * (of_nat attempt + 1)) L1)
          else (Inl e, L1))"

definition api_call_with_retry ::
  "(ledger \<Rightarrow> (exn + 'a) \<times> ledger) \<Rightarrow> ledger \<Rightarrow> (exn + 'a) \<times> ledger" where
  "api_call_with_retry func L = api_retry_attempts func [0..<SHEETS_API_RETRY_COUNT] None L"

subsection \<open>Status, times and token counters of a row\<close>

text \<open>\<open>update_status\<close> goes through the retry wrapper and turns any exception into
  \<open>False\<close>.\<close>

definition update_status :: "nat \<Rightarrow> pystr \<Rightarrow> ledger \<Rightarrow> bool \<times> ledger" where
  "update_status row st L =
     (case api_call_with_retry (update_cell row COL_STATUS (SStr st)) L of
        (Inr u, L1) \<Rightarrow> (True, L1)
      | (Inl e, L1) \<Rightarrow> (False, L1))"

definition update_file_name :: "nat \<Rightarrow> pystr \<Rightarrow> ledger \<Rightarrow> ledger" where
  "update_file_name row new_file_name L =
     snd (api_call_with_retry (update_cell row COL_FILE_NAME (SStr new_file_name)) L)"

text \<open>\<open>set_start_time\<close>, \<open>set_end_time\<close>: one direct request, any exception swallowed.
  \<open>now\<close> is the formatted \<open>datetime.now()\<close> of the call.\<close>

definition set_start_time :: "pystr \<Rightarrow> nat \<Rightarrow> ledger \<Rightarrow> ledger" where
  "set_start_time now row L = snd (update_cell row COL_START_TIME (SStr now) L)"

definition set_end_time :: "pystr \<Rightarrow> nat \<Rightarrow> ledger \<Rightarrow> ledger" where
  "set_end_time now row L = snd (update_cell row COL_END_TIME (SStr now) L)"

text \<open>\<open>reset_tokens\<close>: two direct requests in one \<open>try\<close>; when the first raises, the second
  is not made.\<close>

definition reset_tokens :: "nat \<Rightarrow> ledger \<Rightarrow> ledger" where
  "reset_tokens row L =
     (case update_cell row COL_INPUT_TOKEN (SInt 0) L of
        (Inl e, L1) \<Rightarrow> L1
      | (Inr u, L1) \<Rightarrow> snd (update_cell row COL_OUTPUT_TOKEN (SInt 0) L1))"

definition start_task :: "pystr \<Rightarrow> nat \<Rightarrow> ledger \<Rightarrow> ledger" where
  "start_task now row L =
     reset_tokens row (set_start_time now row (snd (update_status row IN_PROGRESS L)))"

definition mark_completed :: "pystr \<Rightarrow> nat \<Rightarrow> ledger \<Rightarrow> ledger" where
  "mark_completed now row L = set_end_time now row (snd (update_status row COMPLETED L))"

text \<open>\<open>record_error\<close>: the status becomes ERROR and the error column receives the detail
  (the text built from the time, the module name and the message; it is passed in
  whole).\<close>

definition record_error :: "nat \<Rightarrow> pystr \<Rightarrow> ledger \<Rightarrow> ledger" where
  "record_error row error_detail L =
     snd (update_cell row COL_ERROR (SStr error_detail) (snd (update_status row ERROR L)))"

section \<open>translator.py\<close>

definition MAX_RETRIES :: nat where "MAX_RETRIES = 3"
definition RETRY_DELAY_SECONDS :: rat where "RETRY_DELAY_SECONDS = 5"

text \<open>\<open>str.strip()\<close> removes the leading and trailing code points for which
  \<open>str.isspace\<close> holds.\<close>

definition py_isspace :: "nat \<Rightarrow> bool" where
  "py_isspace c =
     (c \<in> set [9, 10, 11, 12, 13, 28, 29, 30, 31, 32, 133, 160, 5760, 8192, 8193, 8194, 8195,
                8196, 8197, 8198, 8199, 8200, 8201, 8202, 8232, 8233, 8239, 8287, 12288])"

definition py_strip :: "pystr \<Rightarrow> pystr" where
  "py_strip s = rev (dropWhile py_isspace (rev (dropWhile py_isspace s)))"

text \<open>\<open>s.replace(old, new)\<close>: the occurrences of \<open>old\<close> are replaced from left to right
  without overlap; an empty \<open>old\<close> matches before every code point and at the end.\<close>

function py_replace :: "pystr \<Rightarrow> pystr \<Rightarrow> pystr \<Rightarrow> pystr" where
  "py_replace s old new =
     (if old = [] then new @ concat (map (\<lambda>c. c # new) s)
      else if s = [] then []
      else if startswith s old then new @ py_replace (drop (length old) s) old new
      else hd s # py_replace (tl s) old new)"
  by pat_completeness auto
termination
  by (relation "measure (\<lambda>(s, old, new). length s)") auto

declare py_replace.simps [simp del]

text \<open>
  What the remote call of one attempt does. \<open>model.generate_content\<close> raises, or it returns a
  response; reading \<open>response.text\<close> raises, or it gives the text; \<open>usage_metadata\<close> is absent, or
  it holds the two counts, each of which may be missing or \<open>None\<close>.
\<close>

record usage =
  prompt_token_count :: "int option"
  candidates_token_count :: "int option"

record response =
  resp_text :: "exn + pystr"
  usage_metadata :: "usage option"

text \<open>\<open>getattr(usage, name, 0) or 0\<close>.\<close>

definition count_or_0 :: "int option \<Rightarrow> int" where
  "count_or_0 c = (case c of None \<Rightarrow> 0 | Some n \<Rightarrow> n)"

text \<open>
  The body of the \<open>try\<close> of one attempt of \<open>translate_batch\<close>: the exception it raises, or the
  triple it returns. \<open>loads\<close> is \<open>json.loads\<close> restricted to what the interface expects, an
  array of strings: \<open>None\<close> is a \<open>JSONDecodeError\<close>. The prompt (glossary, context and the JSON
  of the texts; its template is in prompts.py) only reaches the remote call, whose behaviour
  is the argument \<open>outcome\<close>.
\<close>

definition attempt_body ::
  "(pystr \<Rightarrow> pystr list option) \<Rightarrow> exn + response \<Rightarrow> exn + (pystr list \<times> int \<times> int)" where
  "attempt_body loads outcome =
     (case outcome of
        Inl e \<Rightarrow> Inl e
      | Inr resp \<Rightarrow>
          (case resp_text resp of
             Inl e \<Rightarrow> Inl e
           | Inr t \<Rightarrow>
               let result_text = py_strip t;
                   input_tokens = (case usage_metadata resp of
                                     None \<Rightarrow> 0 | Some u \<Rightarrow> count_or_0 (prompt_token_count u));
                   output_tokens = (case usage_metadata resp of
                                     None \<Rightarrow> 0 | Some u \<Rightarrow> count_or_0 (candidates_token_count u));
                   cleaned = (if startswith result_text (ascii ''```'')
                              then py_replace (py_replace result_text (ascii ''```json'') [])
                                     (ascii ''```'') []
                              else result_text)
               in (case loads cleaned of
                     None \<Rightarrow> Inl (Exn JSONDecodeError [])
                   | Some translated_list \<Rightarrow> Inr (translated_list, input_tokens, output_tokens))))"

text \<open>
  The retry loop \<open>for attempt in range(1, MAX_RETRIES + 1)\<close> over the attempts still to run.
  \<open>api attempt\<close> is what the remote call of that attempt does. The result is the returned
  triple and the durations slept. Both \<open>except\<close> clauses end in a \<open>return\<close> or fall through to
  the next attempt, so the loop has no raising exit.
\<close>

fun translate_attempts ::
  "(pystr \<Rightarrow> pystr list option) \<Rightarrow> (nat \<Rightarrow> exn + response) \<Rightarrow> pystr list \<Rightarrow> nat list
     \<Rightarrow> (pystr list \<times> int \<times> int) \<times> rat list"
where
  "translate_attempts loads api text_list [] = ((text_list, 0, 0), [])"
| "translate_attempts loads api text_list (attempt # rest) =
     (case attempt_body loads (api attempt) of
        Inr r \<Rightarrow> (r, [])
      | Inl e \<Rightarrow>
          if exn_class_of e = JSONDecodeError
          then (if attempt < MAX_RETRIES
                then (case translate_attempts loads api text_list rest of
                        (r, naps) \<Rightarrow> (r, RETRY_DELAY_SECONDS # naps))
                else ((text_list, 0, 0), []))
          else (if attempt < MAX_RETRIES
                then (case translate_attempts loads api text_list rest of
                        (r, naps) \<Rightarrow> (r, RETRY_DELAY_SECONDS * of_nat attempt # naps))
                else ((text_list, 0, 0), [])))"

definition translate_batch ::
  "(pystr \<Rightarrow> pystr list option) \<Rightarrow> (nat \<Rightarrow> exn + response) \<Rightarrow> pystr list
     \<Rightarrow> (pystr list \<times> int \<times> int) \<times> rat list" where
  "translate_batch loads api text_list =
     (if text_list = [] then (([], 0, 0), [])
      else translate_attempts loads api text_list [1..<MAX_RETRIES + 1])"

section \<open>handlers/docx\_handler.py: saving with retries\<close>

definition SAVE_MAX_RETRIES :: nat where "SAVE_MAX_RETRIES = 5"
definition SAVE_RETRY_DELAY :: rat where "SAVE_RETRY_DELAY = 3"

text \<open>What a save does that can be observed from outside: the calls of \<open>doc.save\<close>, the
  sleeps, and the forced termination of the editor (\<open>taskkill /F /IM WINWORD.EXE\<close>).\<close>

datatype save_event = SaveCall | Nap rat | Taskkill

text \<open>The text before \<open>str(e)\<close> in the exception raised when the last attempt fails with a
  \<open>PermissionError\<close>, as code points.\<close>

definition SAVE_FAILED_PREFIX :: pystr where
  "SAVE_FAILED_PREFIX = [54028, 51068, 32, 51200, 51109, 32, 49892, 54056, 32, 40, 47784, 46304,
     32, 51116, 49884, 46020, 32, 49892, 54056, 41, 58, 32]"

text \<open>\<open>kill_word_processes\<close>: \<open>subprocess.run\<close> of taskkill, then a sleep of two seconds; when
  \<open>subprocess.run\<close> raises (\<open>taskkill_runs\<close> is false) the sleep is skipped and the exception is
  swallowed.\<close>

definition kill_word_processes :: "bool \<Rightarrow> save_event list" where
  "kill_word_processes taskkill_runs = Taskkill # (if taskkill_runs then [Nap 2] else [])"

text \<open>
  The loop \<open>for attempt in range(1, max_retries + 1)\<close> over the attempts still to run.
  \<open>save k\<close> is what the \<open>k\<close>-th call of \<open>doc.save\<close> does (\<open>None\<close>: it succeeds), \<open>k\<close> counting the
  calls from \<open>calls\<close> on. The result is the returned value or the exception raised, the number
  of \<open>doc.save\<close> calls made so far, and the events in order. On the last attempt a
  \<open>PermissionError\<close> is replaced by a plain \<open>Exception\<close>, any other exception is re-raised.
\<close>

fun save_attempts ::
  "bool \<Rightarrow> (nat \<Rightarrow> exn option) \<Rightarrow> nat \<Rightarrow> nat \<Rightarrow> nat list \<Rightarrow> (exn + bool) \<times> nat \<times> save_event list"
where
  "save_attempts taskkill_runs save max_retries calls [] = (Inr False, calls, [])"
| "save_attempts taskkill_runs save max_retries calls (attempt # rest) =
     (case save calls of
        None \<Rightarrow> (Inr True, Suc calls, [SaveCall])
      | Some e \<Rightarrow>
          if exn_class_of e = PermissionError
          then (if attempt < max_retries
                then (case save_attempts taskkill_runs save max_retries (Suc calls) rest of
                        (r, n, evs) \<Rightarrow>
                          (r, n, SaveCall #
                             (if attempt \<ge> 2 then kill_word_processes taskkill_runs
                              else [Nap SAVE_RETRY_DELAY]) @ evs))
                else (Inl (Exn OtherException (SAVE_FAILED_PREFIX @ exn_str e)), Suc calls, [SaveCall]))
          else (if attempt < max_retries
                then (case save_attempts taskkill_runs save max_retries (Suc calls) rest of
                        (r, n, evs) \<Rightarrow> (r, n, SaveCall # Nap SAVE_RETRY_DELAY # evs))
                else (Inl e, Suc calls, [SaveCall])))"

definition save_document_with_retry ::
  "bool \<Rightarrow> (nat \<Rightarrow> exn option) \<Rightarrow> nat \<Rightarrow> nat \<Rightarrow> (exn + bool) \<times> nat \<times> save_event list" where
  "save_document_with_retry taskkill_runs save calls max_retries =
     save_attempts taskkill_runs save max_retries calls [1..<max_retries + 1]"

section \<open>main.py: preparing and processing one task\<close>

subsection \<open>Files\<close>

text \<open>
  The file system as far as the preparation of the work file uses it: the content of each
  path that exists, and the operations performed, in order. Directories are not modelled
  (\<open>os.makedirs(..., exist_ok=True)\<close> is recorded only); \<open>shutil.copy2\<close> raises when its source
  does not exist.
\<close>

type_synonym content = "nat list"

datatype fs_op = MadeDirs pystr | Copied pystr pystr | Converted pystr pystr | Removed pystr

record fsys =
  files :: "pystr \<Rightarrow> content option"
  ops :: "fs_op list"

definition path_exists :: "fsys \<Rightarrow> pystr \<Rightarrow> bool" where
  "path_exists F p = (files F p \<noteq> None)"

definition makedirs :: "pystr \<Rightarrow> fsys \<Rightarrow> fsys" where
  "makedirs d F = F\<lparr>ops := ops F @ [MadeDirs d]\<rparr>"

definition copy2 :: "pystr \<Rightarrow> pystr \<Rightarrow> fsys \<Rightarrow> (exn + unit) \<times> fsys" where
  "copy2 src dst F =
     (case files F src of
        None \<Rightarrow> (Inl (Exn FileNotFoundError src), F)
      | Some c \<Rightarrow> (Inr (), F\<lparr>files := (files F)(dst \<mapsto> c), ops := ops F @ [Copied src dst]\<rparr>))"

text \<open>\<open>os.remove\<close> inside \<open>try: ... except: pass\<close>.\<close>

definition remove_quietly :: "pystr \<Rightarrow> fsys \<Rightarrow> fsys" where
  "remove_quietly p F =
     (if path_exists F p then F\<lparr>files := (files F)(p := None), ops := ops F @ [Removed p]\<rparr>
      else F)"

text \<open>converter.py, \<open>convert_doc_to_docx\<close>: \<open>FileNotFoundError\<close> when the source is missing;
  otherwise Word converts (\<open>word_convert\<close>: the exception it raises, or the content it saves)
  and the target path is returned.\<close>

definition convert_doc_to_docx ::
  "(content \<Rightarrow> exn + content) \<Rightarrow> pystr \<Rightarrow> pystr \<Rightarrow> fsys \<Rightarrow> (exn + pystr) \<times> fsys" where
  "convert_doc_to_docx word_convert doc_path docx_path F =
     (case files F doc_path of
        None \<Rightarrow> (Inl (Exn FileNotFoundError doc_path), F)
      | Some c \<Rightarrow>
          (case word_convert c of
             Inl e \<Rightarrow> (Inl e, F)
           | Inr d \<Rightarrow> (Inr docx_path,
                        F\<lparr>files := (files F)(docx_path \<mapsto> d),
                          ops := ops F @ [Converted doc_path docx_path]\<rparr>)))"

text \<open>
  What \<open>build_file_path\<close> returns, together with the two values that \<open>prepare_work_files\<close> and
  \<open>process_task\<close> derive from the same names with \<open>os.path\<close>: the lower-cased extension (of the
  origin path and of the normalised file name, which agree) and the path of the temporary
  copy of a \<open>.doc\<close> origin inside the completed directory. The string operations of \<open>os.path\<close>
  themselves are not modelled.
\<close>

record task_paths =
  origin_path :: pystr
  completed_dir :: pystr
  completed_original :: pystr
  work_file_path :: pystr
  normalized_file_name :: pystr
  ext :: pystr
  temp_doc_path :: pystr

definition ALL_SUPPORTED_EXTENSIONS :: "pystr list" where
  "ALL_SUPPORTED_EXTENSIONS = [ascii ''.docx'', ascii ''.xlsx'', ascii ''.pptx'', ascii ''.doc'']"

text \<open>\<open>prepare_work_files\<close>: the body of the \<open>try\<close>, as the exception raised or the path
  returned, with the file system as it is left.\<close>

definition prepare_work_files_body ::
  "(content \<Rightarrow> exn + content) \<Rightarrow> task_paths \<Rightarrow> fsys \<Rightarrow> (exn + pystr) \<times> fsys" where
  "prepare_work_files_body word_convert P F =
     (let F1 = makedirs (completed_dir P) F;
          backup = (if \<not> path_exists F1 (completed_original P)
                    then copy2 (origin_path P) (completed_original P) F1
                    else (Inr (), F1))
      in case backup of
           (Inl e, F2) \<Rightarrow> (Inl e, F2)
         | (Inr u, F2) \<Rightarrow>
             if ext P = ascii ''.doc''
             then (let staged = (if \<not> path_exists F2 (temp_doc_path P)
                                 then copy2 (origin_path P) (temp_doc_path P) F2
                                 else (Inr (), F2))
                   in case staged of
                        (Inl e, F3) \<Rightarrow> (Inl e, F3)
                      | (Inr u, F3) \<Rightarrow>
                          (case convert_doc_to_docx word_convert (temp_doc_path P)
                                  (work_file_path P) F3 of
                             (Inl e, F4) \<Rightarrow> (Inl e, F4)
                           | (Inr p, F4) \<Rightarrow>
                               (Inr (work_file_path P),
                                if temp_doc_path P \<noteq> completed_original P
                                then remove_quietly (temp_doc_path P) F4 else F4)))
             else (case copy2 (origin_path P) (work_file_path P) F2 of
                     (Inl e, F3) \<Rightarrow> (Inl e, F3)
                   | (Inr u, F3) \<Rightarrow> (Inr (work_file_path P), F3)))"

text \<open>\<open>except Exception: return None\<close>.\<close>

definition prepare_work_files ::
  "(content \<Rightarrow> exn + content) \<Rightarrow> task_paths \<Rightarrow> fsys \<Rightarrow> pystr option \<times> fsys" where
  "prepare_work_files word_convert P F =
     (case prepare_work_files_body word_convert P F of
        (Inl e, F1) \<Rightarrow> (None, F1)
      | (Inr p, F1) \<Rightarrow> (Some p, F1))"

text \<open>\<open>prepare_work_files_resume\<close>: the existing work file is returned as it is; only when
  there is none is it created as for a fresh task.\<close>

definition prepare_work_files_resume ::
  "(content \<Rightarrow> exn + content) \<Rightarrow> task_paths \<Rightarrow> fsys \<Rightarrow> pystr option \<times> fsys" where
  "prepare_work_files_resume word_convert P F =
     (if path_exists F (work_file_path P) then (Some (work_file_path P), F)
      else prepare_work_files word_convert P F)"

subsection \<open>process\_task\<close>

text \<open>\<open>is_resume_mode = current_status in [IN_PROGRESS, ERROR]\<close>.\<close>

definition is_resume_mode :: "task \<Rightarrow> bool" where
  "is_resume_mode t = (status t \<in> set [IN_PROGRESS, ERROR])"

text \<open>Step 5 of \<open>process_task\<close> (lines 266-273): a resumed task only has its status set; a
  fresh one goes through \<open>start_task\<close>.\<close>

definition enter_in_progress :: "pystr \<Rightarrow> task \<Rightarrow> ledger \<Rightarrow> ledger" where
  "enter_in_progress now t L =
     (if is_resume_mode t then snd (update_status (row_index t) IN_PROGRESS L)
      else start_task now (row_index t) L)"

text \<open>Step 6 of \<open>process_task\<close> (lines 275-281).\<close>

definition prepare_step ::
  "(content \<Rightarrow> exn + content) \<Rightarrow> task \<Rightarrow> task_paths \<Rightarrow> fsys \<Rightarrow> pystr option \<times> fsys" where
  "prepare_step word_convert t P F =
     (if is_resume_mode t then prepare_work_files_resume word_convert P F
      else prepare_work_files word_convert P F)"

text \<open>The messages of the two plain exceptions of \<open>process_task\<close>, as code points.\<close>

definition MSG_PREPARE_FAILED :: pystr where
  "MSG_PREPARE_FAILED = [51089, 50629, 32, 54028, 51068, 32, 51456, 48708, 32, 49892, 54056]"

definition MSG_TRANSLATE_FAILED :: pystr where
  "MSG_TRANSLATE_FAILED = [48264, 50669, 32, 52376, 47532, 32, 49892, 54056]"

text \<open>
  The body of the \<open>try\<close> of \<open>process_task\<close>. Steps 7 and 8 (context generation and the handler
  of the file kind) are the argument \<open>translate_step\<close>: given the work file, what they raise or
  whether the handler's result is truthy, with the ledger and the files as they leave them.
  The notifications are left out.
\<close>

definition process_task_body ::
  "(content \<Rightarrow> exn + content) \<Rightarrow> (pystr \<Rightarrow> ledger \<Rightarrow> fsys \<Rightarrow> (exn + bool) \<times> ledger \<times> fsys)
     \<Rightarrow> pystr \<Rightarrow> pystr \<Rightarrow> task \<Rightarrow> task_paths \<Rightarrow> ledger \<Rightarrow> fsys \<Rightarrow> (exn + unit) \<times> ledger \<times> fsys"
where
  "process_task_body word_convert translate_step now_start now_end t P L F =
     (let L1 = (if file_name t \<noteq> normalized_file_name P
                then update_file_name (row_index t) (normalized_file_name P) L else L)
      in if \<not> path_exists F (origin_path P)
         then (Inl (Exn FileNotFoundError (origin_path P)), L1, F)
         else if ext P \<notin> set ALL_SUPPORTED_EXTENSIONS
         then (Inl (Exn ValueError (ext P)), L1, F)
         else (let L2 = enter_in_progress now_start t L1
               in case prepare_step word_convert t P F of
                    (None, F1) \<Rightarrow> (Inl (Exn OtherException MSG_PREPARE_FAILED), L2, F1)
                  | (Some actual_work_path, F1) \<Rightarrow>
                      (case translate_step actual_work_path L2 F1 of
                         (Inl e, L3, F2) \<Rightarrow> (Inl e, L3, F2)
                       | (Inr ok, L3, F2) \<Rightarrow>
                           if ok then (Inr (), mark_completed now_end (row_index t) L3, F2)
                           else (Inl (Exn OtherException MSG_TRANSLATE_FAILED), L3, F2))))"

text \<open>\<open>process_task\<close>: any exception of the body is recorded with \<open>record_error\<close> (the detail
  is reduced to the message) and \<open>False\<close> is returned.\<close>

definition process_task ::
  "(content \<Rightarrow> exn + content) \<Rightarrow> (pystr \<Rightarrow> ledger \<Rightarrow> fsys \<Rightarrow> (exn + bool) \<times> ledger \<times> fsys)
     \<Rightarrow> pystr \<Rightarrow> pystr \<Rightarrow> task \<Rightarrow> task_paths \<Rightarrow> ledger \<Rightarrow> fsys \<Rightarrow> bool \<times> ledger \<times> fsys"
where
  "process_task word_convert translate_step now_start now_end t P L F =
     (case process_task_body word_convert translate_step now_start now_end t P L F of
        (Inr u, L1, F1) \<Rightarrow> (True, L1, F1)
      | (Inl e, L1, F1) \<Rightarrow> (False, record_error (row_index t) (exn_str e) L1, F1))"

subsection \<open>Example data for process\_task\<close>

text \<open>A resumed task (status ERROR), its paths, a file system in which the work file exists
  and one in which only the origin exists.\<close>

definition ex_task_error :: task where
  "ex_task_error = \<lparr> row_index = 2, row_num = [], upper_path = [], sub_path = [],
     file_name = ascii ''a.docx'', file_type = [], status = ERROR \<rparr>"

definition ex_paths :: task_paths where
  "ex_paths = \<lparr> origin_path = ascii ''origin/a.docx'', completed_dir = ascii ''done'',
     completed_original = ascii ''done/a.docx'', work_file_path = ascii ''done/a - en.docx'',
     normalized_file_name = ascii ''a.docx'', ext = ascii ''.docx'',
     temp_doc_path = ascii ''done/a.docx'' \<rparr>"

definition ex_fs_with_work :: fsys where
  "ex_fs_with_work =
     \<lparr> files = (\<lambda>p. if p = ascii ''origin/a.docx'' then Some [1, 2, 3]
                     else if p = ascii ''done/a - en.docx'' then Some [9, 9] else None),
       ops = [] \<rparr>"

definition ex_fs_without_work :: fsys where
  "ex_fs_without_work =
     \<lparr> files = (\<lambda>p. if p = ascii ''origin/a.docx'' then Some [1, 2, 3] else None),
       ops = [] \<rparr>"

section \<open>Properties of the ledger\<close>

lemma scan_rows_None: "scan_rows idx rows = None \<longleftrightarrow> list_all (\<lambda>row. \<not> is_processable row) rows"
  by (induction rows arbitrary: idx) auto

lemma scan_rows_Some:
  "scan_rows idx rows = Some t \<Longrightarrow>
     \<exists>i < length rows. t = task_of_row (idx + i) (rows ! i) \<and> is_processable (rows ! i)
        \<and> list_all (\<lambda>row. \<not> is_processable row) (take i rows)"
proof (induction rows arbitrary: idx)
  case Nil
  then show ?case by simp
next
  case (Cons row rest)
  show ?case
  proof (cases "is_processable row")
    case True
    with Cons.prems have "t = task_of_row idx row" by simp
    with True show ?thesis by (intro exI [of _ 0]) simp
  next
    case False
    with Cons.prems have "scan_rows (Suc idx) rest = Some t" by simp
    from Cons.IH [OF this] obtain i where
      i: "i < length rest" "t = task_of_row (Suc idx + i) (rest ! i)" "is_processable (rest ! i)"
         "list_all (\<lambda>row. \<not> is_processable row) (take i rest)"
      by blast
    with False show ?thesis by (intro exI [of _ "Suc i"]) simp
  qed
qed

lemma is_processable_iff:
  "is_processable row \<longleftrightarrow>
     6 < length row \<and> (row ! 6 = WAITING \<or> row ! 6 = IN_PROGRESS \<or> row ! 6 = ERROR)"
  by (auto simp: is_processable_def processable_statuses_def COL_STATUS_def)

lemma status_task_of_row: "status (task_of_row idx row) = row ! 6"
  by (simp add: task_of_row_def COL_STATUS_def)

lemma row_index_task_of_row: "row_index (task_of_row idx row) = idx"
  by (simp add: task_of_row_def)

text \<open>
  Claim C5. Given the rows that the ledger returned (the header row first), the task that
  \<open>get_next_waiting_task\<close> returns is built from the first row below the header, in row order,
  that reaches the status column with a status among WAITING, IN\_PROGRESS and ERROR: every
  row above it has no such status, the task's row index is the sheet's row number of that row
  (the first data row is row 2), and its status is neither COMPLETED nor REVIEW\_1\_COMPLETED.
  The result is \<open>None\<close> exactly when no row below the header has such a status.
\<close>

theorem get_next_waiting_task_first_processable:
  fixes all_values :: "pystr list list"
  defines "rows \<equiv> drop 1 all_values"
  shows
    "(get_next_waiting_task (Inr all_values) = None \<longleftrightarrow>
        (\<forall>i < length rows. \<not> (6 < length (rows ! i) \<and>
            (rows ! i ! 6 = WAITING \<or> rows ! i ! 6 = IN_PROGRESS \<or> rows ! i ! 6 = ERROR))))
     \<and> (\<forall>t. get_next_waiting_task (Inr all_values) = Some t \<longrightarrow>
          (\<exists>i < length rows.
              t = task_of_row (i + 2) (rows ! i)
            \<and> row_index t = i + 2
            \<and> 6 < length (rows ! i)
            \<and> status t = rows ! i ! 6
            \<and> (status t = WAITING \<or> status t = IN_PROGRESS \<or> status t = ERROR)
            \<and> status t \<noteq> COMPLETED \<and> status t \<noteq> REVIEW_1_COMPLETED
            \<and> (\<forall>j < i. \<not> (6 < length (rows ! j) \<and>
                 (rows ! j ! 6 = WAITING \<or> rows ! j ! 6 = IN_PROGRESS \<or> rows ! j ! 6 = ERROR)))))"
proof (intro conjI allI impI)
  show "get_next_waiting_task (Inr all_values) = None \<longleftrightarrow>
        (\<forall>i < length rows. \<not> (6 < length (rows ! i) \<and>
            (rows ! i ! 6 = WAITING \<or> rows ! i ! 6 = IN_PROGRESS \<or> rows ! i ! 6 = ERROR)))"
    unfolding get_next_waiting_task_def rows_def
    by (simp add: scan_rows_None list_all_length is_processable_iff)
next
  fix t
  assume "get_next_waiting_task (Inr all_values) = Some t"
  then have "scan_rows 2 rows = Some t"
    by (simp add: get_next_waiting_task_def rows_def)
  from scan_rows_Some [OF this] obtain i where
    i: "i < length rows" "t = task_of_row (2 + i) (rows ! i)" "is_processable (rows ! i)"
       "list_all (\<lambda>row. \<not> is_processable row) (take i rows)"
    by blast
  from i(3) have st: "6 < length (rows ! i)"
      "rows ! i ! 6 = WAITING \<or> rows ! i ! 6 = IN_PROGRESS \<or> rows ! i ! 6 = ERROR"
    by (simp_all add: is_processable_iff)
  from st(2) have ne: "rows ! i ! 6 \<noteq> COMPLETED" "rows ! i ! 6 \<noteq> REVIEW_1_COMPLETED"
    by (auto simp: status_defs)
  have above: "\<forall>j < i. \<not> (6 < length (rows ! j) \<and>
      (rows ! j ! 6 = WAITING \<or> rows ! j ! 6 = IN_PROGRESS \<or> rows ! j ! 6 = ERROR))"
  proof (intro allI impI)
    fix j assume "j < i"
    with i(1,4) have "\<not> is_processable (rows ! j)"
      by (simp add: list_all_length)
    then show "\<not> (6 < length (rows ! j) \<and>
      (rows ! j ! 6 = WAITING \<or> rows ! j ! 6 = IN_PROGRESS \<or> rows ! j ! 6 = ERROR))"
      by (simp add: is_processable_iff)
  qed
  show "\<exists>i < length rows.
              t = task_of_row (i + 2) (rows ! i)
            \<and> row_index t = i + 2
            \<and> 6 < length (rows ! i)
            \<and> status t = rows ! i ! 6
            \<and> (status t = WAITING \<or> status t = IN_PROGRESS \<or> status t = ERROR)
            \<and> status t \<noteq> COMPLETED \<and> status t \<noteq> REVIEW_1_COMPLETED
            \<and> (\<forall>j < i. \<not> (6 < length (rows ! j) \<and>
                 (rows ! j ! 6 = WAITING \<or> rows ! j ! 6 = IN_PROGRESS \<or> rows ! j ! 6 = ERROR)))"
    using i(1,2) st ne above
    by (intro exI [of _ i]) (simp add: status_task_of_row row_index_task_of_row add.commute)
qed

text \<open>A ledger with a header, a COMPLETED row, a REVIEW\_1\_COMPLETED row, an ERROR row and a
  WAITING row: the ERROR row (sheet row 4) is selected.\<close>

theorem get_next_waiting_task_first_processable_witness:
  "get_next_waiting_task (Inr
      [ [],
        [ascii ''1'', ascii ''MC'', ascii ''10'', ascii ''a.docx'', [], ascii ''docx'', COMPLETED],
        [ascii ''2'', ascii ''MC'', ascii ''10'', ascii ''b.pptx'', [], ascii ''pptx'', REVIEW_1_COMPLETED],
        [ascii ''3'', ascii ''MC'', ascii ''10'', ascii ''c.xlsx'', [], ascii ''xlsx'', ERROR],
        [ascii ''4'', ascii ''MC'', ascii ''10'', ascii ''d.docx'', [], ascii ''docx'', WAITING] ])
     = Some \<lparr> row_index = 4, row_num = ascii ''3'', upper_path = ascii ''MC'',
         sub_path = ascii ''10'', file_name = ascii ''c.xlsx'', file_type = ascii ''xlsx'',
         status = ERROR \<rparr>
   \<and> (\<exists>i < 4. row_index \<lparr> row_index = 4, row_num = ascii ''3'', upper_path = ascii ''MC'',
         sub_path = ascii ''10'', file_name = ascii ''c.xlsx'', file_type = ascii ''xlsx'',
         status = ERROR \<rparr> = i + 2)"
proof -
  let ?av = "[ [],
        [ascii ''1'', ascii ''MC'', ascii ''10'', ascii ''a.docx'', [], ascii ''docx'', COMPLETED],
        [ascii ''2'', ascii ''MC'', ascii ''10'', ascii ''b.pptx'', [], ascii ''pptx'', REVIEW_1_COMPLETED],
        [ascii ''3'', ascii ''MC'', ascii ''10'', ascii ''c.xlsx'', [], ascii ''xlsx'', ERROR],
        [ascii ''4'', ascii ''MC'', ascii ''10'', ascii ''d.docx'', [], ascii ''docx'', WAITING] ]"
  let ?t = "\<lparr> row_index = 4, row_num = ascii ''3'', upper_path = ascii ''MC'',
         sub_path = ascii ''10'', file_name = ascii ''c.xlsx'', file_type = ascii ''xlsx'',
         status = ERROR \<rparr>"
  have run: "get_next_waiting_task (Inr ?av) = Some ?t"
    by (simp add: get_next_waiting_task_def is_processable_def processable_statuses_def
        task_of_row_def col_or_empty_def COL_STATUS_def COL_ROW_NUM_def COL_UPPER_PATH_def
        COL_SUB_PATH_def COL_FILE_NAME_def COL_FILE_TYPE_def status_defs)
  from get_next_waiting_task_first_processable [of ?av] run
  have "\<exists>i < length (drop 1 ?av). row_index ?t = i + 2"
    by blast
  then have "\<exists>i < 4. row_index ?t = i + 2" by simp
  with run show ?thesis by blast
qed

lemma retry_attempts_0_2: "[0..<SHEETS_API_RETRY_COUNT] = [0, 1, 2]"
  by (simp add: SHEETS_API_RETRY_COUNT_def upt_rec)

lemma api_call_with_retry_unfold:
  "api_call_with_retry func L = api_retry_attempts func [0, 1, 2] None L"
  unfolding api_call_with_retry_def retry_attempts_0_2 ..

text \<open>
  Claim C3, evaluated. A status update on a ledger whose every request raises a rate-limit
  error (\<open>429\<close>, \<open>Quota exceeded\<close>): the wrapper makes three requests in all, that is two
  retries, sleeping the minimum delay before each and 5, 10 and 15 seconds after the first,
  second and third failure; after the third wait it raises the last exception without a
  fourth request. On a ledger whose request raises an error that is not a rate limit, the
  wrapper makes one request and raises at once.
\<close>

theorem api_call_with_retry_rate_limited_three_requests:
  "(let e = Exn OtherException (ascii ''APIError: [429]: Quota exceeded'');
        L0 = \<lparr> cells = (\<lambda>rc. SStr []), faults = (\<lambda>n. Some e), requests = 0, slept = [] \<rparr>;
        r = api_call_with_retry (update_cell 2 COL_STATUS (SStr IN_PROGRESS)) L0
    in fst r = Inl e \<and> requests (snd r) = 3
       \<and> slept (snd r) = [1 / 2, 5, 1 / 2, 10, 1 / 2, 15]
       \<and> cells (snd r) = cells L0)
   \<and> (let e = Exn OtherException (ascii ''APIError: [500]: Internal error'');
        L0 = \<lparr> cells = (\<lambda>rc. SStr []), faults = (\<lambda>n. Some e), requests = 0, slept = [] \<rparr>;
        r = api_call_with_retry (update_cell 2 COL_STATUS (SStr IN_PROGRESS)) L0
    in fst r = Inl e \<and> requests (snd r) = 1 \<and> slept (snd r) = [1 / 2])"
  by (simp add: api_call_with_retry_unfold update_cell_def sleep_def is_rate_limit_def ascii_def
      SHEETS_API_MIN_DELAY_def SHEETS_API_RETRY_DELAY_def Let_def)

section \<open>Properties of the translator\<close>

lemma attempts_1_3: "[1..<MAX_RETRIES + 1] = [1, 2, 3]"
  by (simp add: MAX_RETRIES_def upt_rec)

lemma translate_batch_unfold:
  "translate_batch loads api text_list =
     (if text_list = [] then (([], 0, 0), [])
      else translate_attempts loads api text_list [1, 2, 3])"
  unfolding translate_batch_def attempts_1_3 ..

lemma translate_attempts_all_fail:
  "list_all (\<lambda>attempt. \<exists>e. attempt_body loads (api attempt) = Inl e) atts \<Longrightarrow>
   fst (translate_attempts loads api text_list atts) = (text_list, 0, 0)"
  by (induction atts) (auto split: prod.splits)

text \<open>
  Claim C1, evaluated. Two texts are sent; the first response is well-formed and parses to a
  list of one string. \<open>translate_batch\<close> returns that one-item list from the success path, with
  the token counts of the response and without any retry (nothing is slept): the length of
  the parsed list is never compared with the length of the input.
\<close>

theorem translate_batch_returns_missized_list:
  "translate_batch (\<lambda>s. if s = [91, 34, 65, 34, 93] then Some [[65]] else None)
     (\<lambda>attempt. Inr \<lparr> resp_text = Inr [91, 34, 65, 34, 93],
          usage_metadata = Some \<lparr> prompt_token_count = Some 12,
                                  candidates_token_count = Some 3 \<rparr> \<rparr>)
     [[44032], [45208]]
   = (([[65]], 12, 3), [])"
  by (simp add: translate_batch_unfold attempt_body_def py_strip_def py_isspace_def ascii_def
      count_or_0_def Let_def)

text \<open>
  Claim C4. When every one of the \<open>MAX_RETRIES\<close> attempts fails, whether the remote call
  raises (a timeout, a rate limit, any other exception), reading the text raises, or the text
  does not parse, \<open>translate_batch\<close> returns the input list itself with both token counts 0.
  This holds for every input list, the empty one included. The function is total: both
  \<open>except\<close> clauses return or go on to the next attempt, so no exception leaves it.
\<close>

theorem translate_batch_falls_back_to_original:
  assumes "\<forall>attempt. 1 \<le> attempt \<and> attempt \<le> MAX_RETRIES \<longrightarrow>
             (\<exists>e. attempt_body loads (api attempt) = Inl e)"
  shows "fst (translate_batch loads api text_list) = (text_list, 0, 0)"
proof (cases "text_list = []")
  case True
  then show ?thesis by (simp add: translate_batch_def)
next
  case False
  from assms have "list_all (\<lambda>attempt. \<exists>e. attempt_body loads (api attempt) = Inl e) [1, 2, 3]"
    by (simp add: MAX_RETRIES_def)
  from translate_attempts_all_fail [OF this] False show ?thesis
    by (simp add: translate_batch_unfold)
qed

text \<open>A timeout on the first attempt, a rate limit on the second, a text that does not parse
  on the third: the original text comes back with zero counts.\<close>

theorem translate_batch_falls_back_to_original_witness:
  "fst (translate_batch (\<lambda>s. None)
     (\<lambda>attempt.
        if attempt = 1 then Inl (Exn OtherException (ascii ''504 Deadline Exceeded: timeout''))
        else if attempt = 2 then Inl (Exn OtherException (ascii ''429 quota''))
        else Inr \<lparr> resp_text = Inr (ascii ''not json''), usage_metadata = None \<rparr>)
     [[44032, 45208]])
   = ([[44032, 45208]], 0, 0)"
proof -
  let ?api = "\<lambda>attempt :: nat.
        if attempt = 1 then Inl (Exn OtherException (ascii ''504 Deadline Exceeded: timeout''))
        else if attempt = 2 then Inl (Exn OtherException (ascii ''429 quota''))
        else Inr \<lparr> resp_text = Inr (ascii ''not json''), usage_metadata = None \<rparr>"
  have "\<forall>attempt. 1 \<le> attempt \<and> attempt \<le> MAX_RETRIES \<longrightarrow>
          (\<exists>e. attempt_body (\<lambda>s. None) (?api attempt) = Inl e)"
    by (simp add: attempt_body_def Let_def)
  from translate_batch_falls_back_to_original [OF this] show ?thesis .
qed

section \<open>Properties of the save with retries\<close>

lemma upt_from_1:
  assumes "3 \<le> m"
  shows "[1..<m + 1] = 1 # 2 # 3 # [4..<m + 1]"
proof -
  have s: "Suc 1 = 2" "Suc 2 = 3" "Suc 3 = 4" by simp_all
  have lt: "1 < m + 1" "2 < m + 1" "3 < m + 1" using assms by simp_all
  have a: "[1..<m + 1] = 1 # [2..<m + 1]"
    using upt_conv_Cons [OF lt(1)] by (simp only: s)
  have b: "[2..<m + 1] = 2 # [3..<m + 1]"
    using upt_conv_Cons [OF lt(2)] by (simp only: s)
  have c: "[3..<m + 1] = 3 # [4..<m + 1]"
    using upt_conv_Cons [OF lt(3)] by (simp only: s)
  show ?thesis by (simp only: a b c)
qed

lemma upt_from_1_two:
  assumes "2 \<le> m"
  shows "[1..<m + 1] = 1 # 2 # [3..<m + 1]"
proof -
  have s: "Suc 1 = 2" "Suc 2 = 3" by simp_all
  have lt: "1 < m + 1" "2 < m + 1" using assms by simp_all
  have a: "[1..<m + 1] = 1 # [2..<m + 1]"
    using upt_conv_Cons [OF lt(1)] by (simp only: s)
  have b: "[2..<m + 1] = 2 # [3..<m + 1]"
    using upt_conv_Cons [OF lt(2)] by (simp only: s)
  show ?thesis by (simp only: a b)
qed

lemma save_attempts_no_taskkill:
  "\<forall>k e. save k = Some e \<longrightarrow> exn_class_of e \<noteq> PermissionError \<Longrightarrow>
   Taskkill \<notin> set (snd (snd (save_attempts tk save m calls atts)))"
proof (induction atts arbitrary: calls)
  case Nil
  then show ?case by simp
next
  case (Cons a atts)
  show ?case
  proof (cases "save calls")
    case None
    then show ?thesis by simp
  next
    case (Some e)
    with Cons.prems have ne: "exn_class_of e \<noteq> PermissionError" by blast
    from Cons.IH [of "Suc calls"] Cons.prems Some ne show ?thesis
      by (auto split: prod.splits)
  qed
qed

lemma save_lock_twice:
  assumes "save calls = Some e1" "exn_class_of e1 = PermissionError"
    "save (Suc calls) = Some e2" "exn_class_of e2 = PermissionError"
    "save (Suc (Suc calls)) = None" "3 \<le> m"
  shows "save_document_with_retry tk save calls m =
     (Inr True, calls + 3,
      [SaveCall, Nap SAVE_RETRY_DELAY, SaveCall] @ kill_word_processes tk @ [SaveCall])"
  unfolding save_document_with_retry_def upt_from_1 [OF assms(6)]
  using assms by simp

lemma save_other_once:
  assumes "save calls = Some e" "exn_class_of e \<noteq> PermissionError"
    "save (Suc calls) = None" "2 \<le> m"
  shows "save_document_with_retry tk save calls m =
     (Inr True, calls + 2, [SaveCall, Nap SAVE_RETRY_DELAY, SaveCall])"
  unfolding save_document_with_retry_def upt_from_1_two [OF assms(4)]
  using assms by simp

text \<open>
  Claim C9. (1) When the first two calls of \<open>doc.save\<close> raise \<open>PermissionError\<close> and the third
  succeeds (with at least three attempts allowed; the default is five),
  \<open>save_document_with_retry\<close> returns \<open>True\<close> after exactly three calls, and its events are: the
  first call, a sleep of \<open>SAVE_RETRY_DELAY\<close>, the second call, \<open>kill_word_processes\<close>, the third
  call. So the forced termination happens exactly once, after the second failure and before
  the third attempt. (2) When no call of \<open>doc.save\<close> raises a \<open>PermissionError\<close>, the events
  hold no forced termination at all, whatever else fails. (3) A failure that is not a lock is
  retried after a sleep of the same \<open>SAVE_RETRY_DELAY\<close>.
\<close>

theorem save_document_with_retry_escalates_once:
  "(\<forall>e1 e2. save calls = Some e1 \<and> exn_class_of e1 = PermissionError
        \<and> save (Suc calls) = Some e2 \<and> exn_class_of e2 = PermissionError
        \<and> save (Suc (Suc calls)) = None \<and> 3 \<le> max_retries \<longrightarrow>
        save_document_with_retry taskkill_runs save calls max_retries =
          (Inr True, calls + 3,
           [SaveCall, Nap SAVE_RETRY_DELAY, SaveCall] @ kill_word_processes taskkill_runs
             @ [SaveCall])
        \<and> length (filter (\<lambda>ev. ev = Taskkill)
             (snd (snd (save_document_with_retry taskkill_runs save calls max_retries)))) = 1)
   \<and> ((\<forall>k e. save k = Some e \<longrightarrow> exn_class_of e \<noteq> PermissionError) \<longrightarrow>
        Taskkill \<notin> set (snd (snd (save_document_with_retry taskkill_runs save calls max_retries))))
   \<and> (\<forall>e. save calls = Some e \<and> exn_class_of e \<noteq> PermissionError
        \<and> save (Suc calls) = None \<and> 2 \<le> max_retries \<longrightarrow>
        save_document_with_retry taskkill_runs save calls max_retries =
          (Inr True, calls + 2, [SaveCall, Nap SAVE_RETRY_DELAY, SaveCall]))"
proof (intro conjI allI impI)
  fix e1 e2
  assume a: "save calls = Some e1 \<and> exn_class_of e1 = PermissionError
        \<and> save (Suc calls) = Some e2 \<and> exn_class_of e2 = PermissionError
        \<and> save (Suc (Suc calls)) = None \<and> 3 \<le> max_retries"
  then show run: "save_document_with_retry taskkill_runs save calls max_retries =
          (Inr True, calls + 3,
           [SaveCall, Nap SAVE_RETRY_DELAY, SaveCall] @ kill_word_processes taskkill_runs
             @ [SaveCall])"
    by (intro save_lock_twice [of save calls e1 e2]) simp_all
  show "length (filter (\<lambda>ev. ev = Taskkill)
             (snd (snd (save_document_with_retry taskkill_runs save calls max_retries)))) = 1"
    unfolding run by (simp add: kill_word_processes_def)
next
  assume "\<forall>k e. save k = Some e \<longrightarrow> exn_class_of e \<noteq> PermissionError"
  then show "Taskkill \<notin> set (snd (snd (save_document_with_retry taskkill_runs save calls max_retries)))"
    unfolding save_document_with_retry_def by (rule save_attempts_no_taskkill)
next
  fix e
  assume "save calls = Some e \<and> exn_class_of e \<noteq> PermissionError
        \<and> save (Suc calls) = None \<and> 2 \<le> max_retries"
  then show "save_document_with_retry taskkill_runs save calls max_retries =
          (Inr True, calls + 2, [SaveCall, Nap SAVE_RETRY_DELAY, SaveCall])"
    by (intro save_other_once [of save calls e]) simp_all
qed

text \<open>The scenario of the specification with the default of five attempts: two lock errors,
  then success; and a disk error followed by success, where nothing is terminated.\<close>

theorem save_document_with_retry_escalates_once_witness:
  "save_document_with_retry True
      (\<lambda>k. if k < 2 then Some (Exn PermissionError (ascii ''Permission denied'')) else None)
      0 SAVE_MAX_RETRIES
     = (Inr True, 3, [SaveCall, Nap 3, SaveCall, Taskkill, Nap 2, SaveCall])
   \<and> save_document_with_retry True
      (\<lambda>k. if k < 1 then Some (Exn OtherException (ascii ''No space left on device'')) else None)
      0 SAVE_MAX_RETRIES
     = (Inr True, 2, [SaveCall, Nap 3, SaveCall])
   \<and> Taskkill \<notin> set (snd (snd (save_document_with_retry True
      (\<lambda>k. if k < 1 then Some (Exn OtherException (ascii ''No space left on device'')) else None)
      0 SAVE_MAX_RETRIES)))"
proof -
  let ?lock = "\<lambda>k :: nat. if k < 2 then Some (Exn PermissionError (ascii ''Permission denied''))
                 else None"
  let ?disk = "\<lambda>k :: nat. if k < 1 then Some (Exn OtherException (ascii ''No space left on device''))
                 else None"
  note esc = save_document_with_retry_escalates_once
  have "save_document_with_retry True ?lock 0 SAVE_MAX_RETRIES =
      (Inr True, 0 + 3, [SaveCall, Nap SAVE_RETRY_DELAY, SaveCall] @ kill_word_processes True
             @ [SaveCall])"
    using esc [of ?lock 0 SAVE_MAX_RETRIES True] by (simp add: SAVE_MAX_RETRIES_def)
  then have one: "save_document_with_retry True ?lock 0 SAVE_MAX_RETRIES =
      (Inr True, 3, [SaveCall, Nap 3, SaveCall, Taskkill, Nap 2, SaveCall])"
    by (simp add: kill_word_processes_def SAVE_RETRY_DELAY_def)
  have "save_document_with_retry True ?disk 0 SAVE_MAX_RETRIES =
      (Inr True, 0 + 2, [SaveCall, Nap SAVE_RETRY_DELAY, SaveCall])"
    using esc [of ?disk 0 SAVE_MAX_RETRIES True] by (simp add: SAVE_MAX_RETRIES_def)
  then have two: "save_document_with_retry True ?disk 0 SAVE_MAX_RETRIES =
      (Inr True, 2, [SaveCall, Nap 3, SaveCall])"
    by (simp add: SAVE_RETRY_DELAY_def)
  have three: "Taskkill \<notin> set (snd (snd (save_document_with_retry True ?disk 0 SAVE_MAX_RETRIES)))"
    using esc [of ?disk 0 SAVE_MAX_RETRIES True] by simp
  from one two three show ?thesis by blast
qed

section \<open>Properties of process\_task\<close>

lemma update_cell_frame:
  "rc \<noteq> (r, c) \<Longrightarrow> cells (snd (update_cell r c v L)) rc = cells L rc"
  by (simp add: update_cell_def split: option.splits)

lemma api_retry_attempts_frame:
  "rc \<noteq> (r, c) \<Longrightarrow>
   cells (snd (api_retry_attempts (update_cell r c v) atts last_e L)) rc = cells L rc"
proof (induction atts arbitrary: last_e L)
  case Nil
  then show ?case by (simp split: option.splits)
next
  case (Cons a atts)
  show ?case
  proof (cases "faults L (requests L)")
    case None
    with Cons.prems show ?thesis by (simp add: update_cell_def sleep_def)
  next
    case (Some e)
    with Cons.prems Cons.IH show ?thesis by (simp add: update_cell_def sleep_def)
  qed
qed

lemma snd_update_status:
  "snd (update_status row st L) =
     snd (api_retry_attempts (update_cell row COL_STATUS (SStr st)) [0, 1, 2] None L)"
  unfolding update_status_def api_call_with_retry_unfold
  by (cases "api_retry_attempts (update_cell row COL_STATUS (SStr st)) [0, 1, 2] None L")
     (simp split: sum.splits)

lemma update_status_frame:
  "rc \<noteq> (row, COL_STATUS) \<Longrightarrow> cells (snd (update_status row st L)) rc = cells L rc"
  unfolding snd_update_status by (rule api_retry_attempts_frame)

lemma update_status_served:
  "faults L (requests L) = None \<Longrightarrow>
   update_status row st L =
     (True, L\<lparr>slept := slept L @ [SHEETS_API_MIN_DELAY],
              cells := (cells L)((row, COL_STATUS) := SStr st),
              requests := Suc (requests L)\<rparr>)"
  by (simp add: update_status_def api_call_with_retry_unfold update_cell_def sleep_def)

lemma enter_fresh:
  assumes "status t = WAITING"
    and "faults L (requests L) = None" "faults L (Suc (requests L)) = None"
        "faults L (Suc (Suc (requests L))) = None" "faults L (Suc (Suc (Suc (requests L)))) = None"
  shows "cells (enter_in_progress now t L) =
     (cells L)((row_index t, COL_STATUS) := SStr IN_PROGRESS,
               (row_index t, COL_START_TIME) := SStr now,
               (row_index t, COL_INPUT_TOKEN) := SInt 0,
               (row_index t, COL_OUTPUT_TOKEN) := SInt 0)"
proof -
  from assms(1) have "\<not> is_resume_mode t" by (simp add: is_resume_mode_def status_defs)
  then show ?thesis using assms(2-)
    by (simp add: enter_in_progress_def start_task_def update_status_served set_start_time_def
        reset_tokens_def update_cell_def)
qed

lemma enter_resume_frame:
  assumes "status t = IN_PROGRESS \<or> status t = ERROR" "rc \<noteq> (row_index t, COL_STATUS)"
  shows "cells (enter_in_progress now t L) rc = cells L rc"
proof -
  from assms(1) have "is_resume_mode t" by (auto simp: is_resume_mode_def)
  with assms(2) show ?thesis by (simp add: enter_in_progress_def update_status_frame)
qed

lemma enter_resume_status:
  assumes "status t = IN_PROGRESS \<or> status t = ERROR" "faults L (requests L) = None"
  shows "cells (enter_in_progress now t L) (row_index t, COL_STATUS) = SStr IN_PROGRESS"
proof -
  from assms(1) have "is_resume_mode t" by (auto simp: is_resume_mode_def)
  with assms(2) show ?thesis by (simp add: enter_in_progress_def update_status_served)
qed

text \<open>
  Claim C6. Step 5 of \<open>process_task\<close>. (1) Fresh start: when the task's status is WAITING and
  the ledger serves the four requests of \<open>start_task\<close>, the row afterwards has the status
  IN\_PROGRESS, the current time in the start-time column, and 0 in both token columns; no
  other cell changes. (2) Resume: when the status is IN\_PROGRESS or ERROR, then whatever the
  ledger does with the requests, both token columns of the row, and every cell other than
  the row's status, are left as they were; the status becomes IN\_PROGRESS when the request
  is served.
\<close>

theorem enter_in_progress_resets_tokens_only_when_fresh:
  "(status t = WAITING \<and> (\<forall>i<4. faults L (requests L + i) = None) \<longrightarrow>
      cells (enter_in_progress now t L) =
        (cells L)((row_index t, COL_STATUS) := SStr IN_PROGRESS,
                  (row_index t, COL_START_TIME) := SStr now,
                  (row_index t, COL_INPUT_TOKEN) := SInt 0,
                  (row_index t, COL_OUTPUT_TOKEN) := SInt 0))
   \<and> ((status t = IN_PROGRESS \<or> status t = ERROR) \<longrightarrow>
        cells (enter_in_progress now t L) (row_index t, COL_INPUT_TOKEN)
          = cells L (row_index t, COL_INPUT_TOKEN)
      \<and> cells (enter_in_progress now t L) (row_index t, COL_OUTPUT_TOKEN)
          = cells L (row_index t, COL_OUTPUT_TOKEN)
      \<and> (\<forall>rc. rc \<noteq> (row_index t, COL_STATUS) \<longrightarrow>
             cells (enter_in_progress now t L) rc = cells L rc)
      \<and> (faults L (requests L) = None \<longrightarrow>
             cells (enter_in_progress now t L) (row_index t, COL_STATUS) = SStr IN_PROGRESS))"
proof (intro conjI impI allI)
  assume a: "status t = WAITING \<and> (\<forall>i<4. faults L (requests L + i) = None)"
  then have served: "faults L (requests L + i) = None" if "i < 4" for i
    using that by blast
  have f: "faults L (requests L) = None" "faults L (Suc (requests L)) = None"
    "faults L (Suc (Suc (requests L))) = None" "faults L (Suc (Suc (Suc (requests L)))) = None"
    using served [of 0] served [of 1] served [of 2] served [of 3]
    by (simp_all add: numeral_eq_Suc)
  from a have w: "status t = WAITING" by simp
  show "cells (enter_in_progress now t L) =
        (cells L)((row_index t, COL_STATUS) := SStr IN_PROGRESS,
                  (row_index t, COL_START_TIME) := SStr now,
                  (row_index t, COL_INPUT_TOKEN) := SInt 0,
                  (row_index t, COL_OUTPUT_TOKEN) := SInt 0)"
    by (rule enter_fresh [OF w f])
next
  assume r: "status t = IN_PROGRESS \<or> status t = ERROR"
  show "cells (enter_in_progress now t L) (row_index t, COL_INPUT_TOKEN)
          = cells L (row_index t, COL_INPUT_TOKEN)"
    by (rule enter_resume_frame [OF r]) (simp add: COL_INPUT_TOKEN_def COL_STATUS_def)
  show "cells (enter_in_progress now t L) (row_index t, COL_OUTPUT_TOKEN)
          = cells L (row_index t, COL_OUTPUT_TOKEN)"
    by (rule enter_resume_frame [OF r]) (simp add: COL_OUTPUT_TOKEN_def COL_STATUS_def)
  show "cells (enter_in_progress now t L) rc = cells L rc" if "rc \<noteq> (row_index t, COL_STATUS)" for rc
    using r that by (rule enter_resume_frame)
  show "cells (enter_in_progress now t L) (row_index t, COL_STATUS) = SStr IN_PROGRESS"
    if "faults L (requests L) = None"
    using r that by (rule enter_resume_status)
qed

text \<open>Row 2 holds 100 and 40 tokens and the ledger serves every request: a WAITING task
  ends with both counters at 0 and a start time; an ERROR task keeps 100 and 40.\<close>

theorem enter_in_progress_resets_tokens_only_when_fresh_witness:
  "cells (enter_in_progress (ascii ''2026-01-01 09:00:00'')
       \<lparr> row_index = 2, row_num = [], upper_path = [], sub_path = [], file_name = [],
         file_type = [], status = WAITING \<rparr>
       \<lparr> cells = (\<lambda>rc. if rc = (2, 12) then SInt 100 else if rc = (2, 13) then SInt 40
                        else SStr []),
         faults = (\<lambda>n. None), requests = 0, slept = [] \<rparr>) (2, COL_INPUT_TOKEN) = SInt 0
   \<and> cells (enter_in_progress (ascii ''2026-01-01 09:00:00'')
       \<lparr> row_index = 2, row_num = [], upper_path = [], sub_path = [], file_name = [],
         file_type = [], status = WAITING \<rparr>
       \<lparr> cells = (\<lambda>rc. if rc = (2, 12) then SInt 100 else if rc = (2, 13) then SInt 40
                        else SStr []),
         faults = (\<lambda>n. None), requests = 0, slept = [] \<rparr>) (2, COL_START_TIME)
       = SStr (ascii ''2026-01-01 09:00:00'')
   \<and> cells (enter_in_progress (ascii ''2026-01-01 09:00:00'')
       \<lparr> row_index = 2, row_num = [], upper_path = [], sub_path = [], file_name = [],
         file_type = [], status = ERROR \<rparr>
       \<lparr> cells = (\<lambda>rc. if rc = (2, 12) then SInt 100 else if rc = (2, 13) then SInt 40
                        else SStr []),
         faults = (\<lambda>n. None), requests = 0, slept = [] \<rparr>) (2, COL_INPUT_TOKEN) = SInt 100
   \<and> cells (enter_in_progress (ascii ''2026-01-01 09:00:00'')
       \<lparr> row_index = 2, row_num = [], upper_path = [], sub_path = [], file_name = [],
         file_type = [], status = ERROR \<rparr>
       \<lparr> cells = (\<lambda>rc. if rc = (2, 12) then SInt 100 else if rc = (2, 13) then SInt 40
                        else SStr []),
         faults = (\<lambda>n. None), requests = 0, slept = [] \<rparr>) (2, COL_STATUS) = SStr IN_PROGRESS"
proof -
  let ?now = "ascii ''2026-01-01 09:00:00''"
  let ?tw = "\<lparr> row_index = 2, row_num = [], upper_path = [], sub_path = [], file_name = [],
         file_type = [], status = WAITING \<rparr>"
  let ?te = "\<lparr> row_index = 2, row_num = [], upper_path = [], sub_path = [], file_name = [],
         file_type = [], status = ERROR \<rparr>"
  let ?L = "\<lparr> cells = (\<lambda>rc. if rc = (2, 12) then SInt 100 else if rc = (2, 13) then SInt 40
                        else SStr []),
         faults = (\<lambda>n. None), requests = 0, slept = [] \<rparr> :: ledger"
  note c6 = enter_in_progress_resets_tokens_only_when_fresh
  have fresh: "cells (enter_in_progress ?now ?tw ?L) =
        (cells ?L)((2, COL_STATUS) := SStr IN_PROGRESS, (2, COL_START_TIME) := SStr ?now,
                  (2, COL_INPUT_TOKEN) := SInt 0, (2, COL_OUTPUT_TOKEN) := SInt 0)"
    using c6 [of ?tw ?L ?now] by simp
  have resume: "cells (enter_in_progress ?now ?te ?L) (2, COL_INPUT_TOKEN) = cells ?L (2, COL_INPUT_TOKEN)"
    "cells (enter_in_progress ?now ?te ?L) (2, COL_STATUS) = SStr IN_PROGRESS"
    using c6 [of ?te ?L ?now] by simp_all
  have 1: "cells (enter_in_progress ?now ?tw ?L) (2, COL_INPUT_TOKEN) = SInt 0"
    unfolding fresh by (simp add: COL_INPUT_TOKEN_def COL_OUTPUT_TOKEN_def)
  have 2: "cells (enter_in_progress ?now ?tw ?L) (2, COL_START_TIME) = SStr ?now"
    unfolding fresh
    by (simp add: COL_INPUT_TOKEN_def COL_OUTPUT_TOKEN_def COL_START_TIME_def)
  have 3: "cells (enter_in_progress ?now ?te ?L) (2, COL_INPUT_TOKEN) = SInt 100"
    unfolding resume(1) by (simp add: COL_INPUT_TOKEN_def)
  from 1 2 3 resume(2) show ?thesis by blast
qed

lemma resume_reuses:
  "path_exists F (work_file_path P) \<Longrightarrow>
   prepare_work_files_resume wc P F = (Some (work_file_path P), F)"
  by (simp add: prepare_work_files_resume_def)

text \<open>
  Claim C7. When the work file of a resumed task (status IN\_PROGRESS or ERROR) exists,
  step 6 of \<open>process_task\<close>, that is \<open>prepare_work_files_resume\<close>, returns the path of that file
  and leaves the file system exactly as it was: no content changes (the work file's
  included) and no operation is performed, so the origin is not copied and the conversion
  is not run. Conversely, whenever \<open>prepare_work_files_resume\<close> changes anything, there was
  no work file.
\<close>

theorem resume_reuses_existing_work_file:
  "(path_exists F (work_file_path P) \<longrightarrow>
      prepare_work_files_resume word_convert P F = (Some (work_file_path P), F))
   \<and> ((status t = IN_PROGRESS \<or> status t = ERROR) \<and> path_exists F (work_file_path P) \<longrightarrow>
      prepare_step word_convert t P F = (Some (work_file_path P), F))
   \<and> (snd (prepare_work_files_resume word_convert P F) \<noteq> F \<longrightarrow>
      \<not> path_exists F (work_file_path P))"
proof (intro conjI impI)
  show "prepare_work_files_resume word_convert P F = (Some (work_file_path P), F)"
    if "path_exists F (work_file_path P)"
    using that by (rule resume_reuses)
  show "prepare_step word_convert t P F = (Some (work_file_path P), F)"
    if "(status t = IN_PROGRESS \<or> status t = ERROR) \<and> path_exists F (work_file_path P)"
  proof -
    from that have "is_resume_mode t" by (auto simp: is_resume_mode_def)
    with that show ?thesis by (simp add: prepare_step_def resume_reuses)
  qed
  show "\<not> path_exists F (work_file_path P)"
    if "snd (prepare_work_files_resume word_convert P F) \<noteq> F"
    using that resume_reuses [of F P word_convert] by auto
qed

text \<open>An ERROR task whose work file exists: the path comes back and the file system is the
  same, the work file still holding its content. Without a work file the preparation
  changes the file system, and indeed there was no work file.\<close>

theorem resume_reuses_existing_work_file_witness:
  "prepare_step (\<lambda>c. Inr c) ex_task_error ex_paths ex_fs_with_work
     = (Some (work_file_path ex_paths), ex_fs_with_work)
   \<and> files ex_fs_with_work (work_file_path ex_paths) = Some [9, 9]
   \<and> ops (snd (prepare_work_files_resume (\<lambda>c. Inr c) ex_paths ex_fs_without_work)) \<noteq> []
   \<and> \<not> path_exists ex_fs_without_work (work_file_path ex_paths)"
proof -
  let ?wc = "\<lambda>c :: content. Inr c :: exn + content"
  have ex: "path_exists ex_fs_with_work (work_file_path ex_paths)"
    by (simp add: path_exists_def ascii_def ex_fs_with_work_def ex_paths_def)
  have st: "status ex_task_error = ERROR"
    by (simp add: ex_task_error_def)
  have one: "prepare_step ?wc ex_task_error ex_paths ex_fs_with_work
     = (Some (work_file_path ex_paths), ex_fs_with_work)"
    using resume_reuses_existing_work_file [of ex_fs_with_work ex_paths ?wc ex_task_error] ex st
    by blast
  have content: "files ex_fs_with_work (work_file_path ex_paths) = Some [9, 9]"
    by (simp add: ascii_def ex_fs_with_work_def ex_paths_def)
  have nex: "\<not> path_exists ex_fs_without_work (work_file_path ex_paths)"
    by (simp add: path_exists_def ascii_def ex_fs_without_work_def ex_paths_def)
  have changed:
    "ops (snd (prepare_work_files_resume ?wc ex_paths ex_fs_without_work)) \<noteq> []"
    by (simp add: prepare_work_files_resume_def prepare_work_files_def
        prepare_work_files_body_def nex makedirs_def copy2_def Let_def path_exists_def
        ex_paths_def ex_fs_without_work_def ascii_def)
  from one content changed nex show ?thesis by blast
qed

end
